theory Spec2Isabelle
  imports Main "HOL-Library.Word"
begin

unbundle bit_operations_syntax

section \<open>Data model (backend/database.go)\<close>

text \<open>
  Go's \<^verbatim>\<open>int\<close> is a signed 64-bit integer on the supported platforms: counters are
  64-bit words, compared through their signed value (\<open><s\<close>), and \<open>+\<close>, \<open>-\<close> wrap.
  A \<^verbatim>\<open>time.Time\<close> is modelled by the instant it denotes, as the number of seconds since
  Go's zero time (January 1, year 1, 00:00:00 UTC), so that \<^verbatim>\<open>time.Time{}\<close> is \<open>0\<close>,
  \<^verbatim>\<open>IsZero\<close> is equality with \<open>0\<close> and \<^verbatim>\<open>Before\<close> is \<open><\<close>. Every call of
  \<^verbatim>\<open>time.Now()\<close> is a parameter of the function that makes it.
  Fields of the rows that no modelled function reads (e-mail, name, picture, prices,
  creation stamps) are left out.
\<close>

type_synonym int64 = "64 word"
type_synonym instant = int

record User =
  ID :: string
  FreeGenerationsLeft :: int64
  LastFreeGeneration :: instant
  PaidGenerations :: int64

record Generation =
  gen_ID :: string
  gen_UserID :: string
  ImageURL :: string
  Provider :: string
  IsFree :: bool

record Transaction =
  tx_ID :: string
  tx_UserID :: string
  PackageType :: string
  Status :: string
  LavaOrderID :: string

record Package =
  pkg_Type :: string
  pkg_Count :: int64
  Popular :: bool

definition Packages :: "Package list" where
  "Packages =
    [\<lparr>pkg_Type = ''pack1'', pkg_Count = 10, Popular = False\<rparr>,
     \<lparr>pkg_Type = ''pack2'', pkg_Count = 30, Popular = True\<rparr>,
     \<lparr>pkg_Type = ''pack3'', pkg_Count = 100, Popular = False\<rparr>]"

text \<open>
  The database: each table is the list of its rows, in primary-key order for the tables
  that are searched. \<^verbatim>\<open>First\<close> returns the first row that matches;
  \<^verbatim>\<open>Save\<close> of a row that was read from the table rewrites the row of the same
  primary key. The only failure of a query that is modelled is the missing row
  (\<^verbatim>\<open>gorm.ErrRecordNotFound\<close>); a store that cannot be reached is outside the model.
\<close>

record DB =
  users :: "User list"
  generations :: "Generation list"
  transactions :: "Transaction list"

datatype db_error = ErrRecordNotFound

definition Before :: "instant \<Rightarrow> instant \<Rightarrow> bool" where
  "Before t u = (t < u)"

definition IsZero :: "instant \<Rightarrow> bool" where
  "IsZero t = (t = 0)"

text \<open>
  \<^verbatim>\<open>time.Date(now.Year(), now.Month(), now.Day(), 0, 0, 0, 0, now.Location())\<close>: the
  midnight that starts the calendar day of \<open>now\<close> in the zone of the server. The zone
  is a parameter of every function that computes that midnight, and is given by what
  it decides here: the function that maps an instant to the midnight that starts its
  local calendar day. Nothing is assumed of it.
\<close>

type_synonym Location = "instant \<Rightarrow> instant"

definition today_of :: "Location \<Rightarrow> instant \<Rightarrow> instant" where
  "today_of loc now = loc now"

text \<open>
  The zone at a fixed offset from UTC, in seconds east of it (\<^verbatim>\<open>time.FixedZone\<close>,
  and \<^verbatim>\<open>time.UTC\<close> at offset zero): the local clock reads \<open>now + offset\<close>.
\<close>

definition fixed_zone :: "int \<Rightarrow> Location" where
  "fixed_zone offset now = now - (now + offset) mod 86400"

definition First_user :: "DB \<Rightarrow> string \<Rightarrow> db_error + User" where
  "First_user db userID =
     (case find (\<lambda>u. ID u = userID) (users db) of
        None \<Rightarrow> Inl ErrRecordNotFound
      | Some user \<Rightarrow> Inr user)"

definition Save_user :: "DB \<Rightarrow> User \<Rightarrow> DB" where
  "Save_user db user =
     db\<lparr>users := map (\<lambda>x. if ID x = ID user then user else x) (users db)\<rparr>"

section \<open>Credit ledger (backend/database.go)\<close>

text \<open>
  \<^verbatim>\<open>GetOrCreateUser\<close> is the only writer of new rows: a new account starts with one
  free generation, the zero stamp and no paid generation. For an account that exists
  it rewrites the profile fields, which are not modelled, and leaves the credits.
\<close>

definition GetOrCreateUser :: "DB \<Rightarrow> string \<Rightarrow> User \<times> DB" where
  "GetOrCreateUser db userID =
     (case First_user db userID of
        Inl err \<Rightarrow>
          (let user = \<lparr>ID = userID, FreeGenerationsLeft = 1, LastFreeGeneration = 0,
                         PaidGenerations = 0\<rparr>
           in (user, db\<lparr>users := users db @ [user]\<rparr>))
      | Inr user \<Rightarrow> (user, Save_user db user))"

definition CheckGenerationLimit ::
  "DB \<Rightarrow> string \<Rightarrow> Location \<Rightarrow> instant \<Rightarrow> (bool \<times> int64 \<times> db_error option) \<times> DB" where
  "CheckGenerationLimit db userID loc now =
     (case First_user db userID of
        Inl err \<Rightarrow> ((False, 0, Some err), db)
      | Inr user \<Rightarrow>
          let today = today_of loc now;
              (user, db) =
                (if Before (LastFreeGeneration user) today
                 then (let user = user\<lparr>FreeGenerationsLeft := 1, LastFreeGeneration := 0\<rparr>
                       in (user, Save_user db user))
                 else (user, db));
              canGenerate = (0 <s FreeGenerationsLeft user \<or> 0 <s PaidGenerations user);
              remaining = FreeGenerationsLeft user + PaidGenerations user
          in ((canGenerate, remaining, None), db))"

definition UseGeneration ::
  "DB \<Rightarrow> string \<Rightarrow> bool \<Rightarrow> Location \<Rightarrow> instant \<Rightarrow> instant \<Rightarrow> db_error option \<times> DB" where
  "UseGeneration db userID isFree loc now stamp =
     (case First_user db userID of
        Inl err \<Rightarrow> (Some err, db)
      | Inr user \<Rightarrow>
          if isFree then
            (let today = today_of loc now;
                 user = (if Before (LastFreeGeneration user) today
                         then user\<lparr>FreeGenerationsLeft := 1\<rparr> else user)
             in if 0 <s FreeGenerationsLeft user
                then (None, Save_user db
                        (user\<lparr>FreeGenerationsLeft := FreeGenerationsLeft user - 1,
                              LastFreeGeneration := stamp\<rparr>))
                else (Some ErrRecordNotFound, db))
          else
            (if 0 <s PaidGenerations user
             then (None, Save_user db (user\<lparr>PaidGenerations := PaidGenerations user - 1\<rparr>))
             else (Some ErrRecordNotFound, db)))"

definition AddPaidGenerations :: "DB \<Rightarrow> string \<Rightarrow> int64 \<Rightarrow> db_error option \<times> DB" where
  "AddPaidGenerations db userID count =
     (case First_user db userID of
        Inl err \<Rightarrow> (Some err, db)
      | Inr user \<Rightarrow>
          (None, Save_user db (user\<lparr>PaidGenerations := PaidGenerations user + count\<rparr>)))"

section \<open>Payment reconciler (backend/payment.go, the payment webhook)\<close>

text \<open>
  The webhook binds the body to a JSON object and reads two of its members with a type
  assertion whose failure is ignored: a missing or non-string member reads as the
  empty string.
\<close>

datatype json = JString string | JOther

definition as_string :: "json option \<Rightarrow> string" where
  "as_string v = (case v of Some (JString s) \<Rightarrow> s | _ \<Rightarrow> [])"

definition First_transaction :: "DB \<Rightarrow> string \<Rightarrow> db_error + Transaction" where
  "First_transaction db orderID =
     (case find (\<lambda>t. LavaOrderID t = orderID) (transactions db) of
        None \<Rightarrow> Inl ErrRecordNotFound
      | Some t \<Rightarrow> Inr t)"

definition Save_transaction :: "DB \<Rightarrow> Transaction \<Rightarrow> DB" where
  "Save_transaction db t =
     db\<lparr>transactions := map (\<lambda>x. if tx_ID x = tx_ID t then t else x) (transactions db)\<rparr>"

definition payment_webhook :: "DB \<Rightarrow> (string \<rightharpoonup> json) option \<Rightarrow> nat \<times> DB" where
  "payment_webhook db body =
     (case body of
        None \<Rightarrow> (400, db)
      | Some webhookData \<Rightarrow>
          let orderID = as_string (webhookData ''order_id'');
              status = as_string (webhookData ''status'')
          in (case First_transaction db orderID of
               Inl err \<Rightarrow> (404, db)
             | Inr transaction \<Rightarrow>
                 (if status = ''success'' \<or> status = ''completed'' then
                   (let transaction = transaction\<lparr>Status := ''completed''\<rparr>;
                        db = Save_transaction db transaction;
                        db = (case find (\<lambda>pkg. pkg_Type pkg = PackageType transaction) Packages of
                                None \<Rightarrow> db
                              | Some pkg \<Rightarrow>
                                  snd (AddPaidGenerations db (tx_UserID transaction) (pkg_Count pkg)))
                    in (200, db))
                 else
                   (let transaction = transaction\<lparr>Status := ''failed''\<rparr>;
                        db = Save_transaction db transaction
                    in (200, db)))))"

section \<open>Strings and formatting\<close>

fun HasPrefix :: "string \<Rightarrow> string \<Rightarrow> bool" where
  "HasPrefix s [] = True"
| "HasPrefix [] (p # ps) = False"
| "HasPrefix (c # cs) (p # ps) = (c = p \<and> HasPrefix cs ps)"

fun Contains :: "string \<Rightarrow> string \<Rightarrow> bool" where
  "Contains [] substr = (substr = [])"
| "Contains (c # cs) substr = (HasPrefix (c # cs) substr \<or> Contains cs substr)"

text \<open>
  \<^verbatim>\<open>strings.Split(s, sep)\<close> for a non-empty separator: the pieces between the
  non-overlapping occurrences of \<open>sep\<close>, found from the left. \<open>acc\<close> holds the current
  piece, reversed.
\<close>

function Split_from :: "string \<Rightarrow> string \<Rightarrow> string \<Rightarrow> string list" where
  "Split_from sep acc [] = [rev acc]"
| "Split_from sep acc (c # cs) =
     (if sep \<noteq> [] \<and> HasPrefix (c # cs) sep
      then rev acc # Split_from sep [] (drop (length sep) (c # cs))
      else Split_from sep (c # acc) cs)"
  by pat_completeness auto
termination
  by (relation "measure (\<lambda>(sep, acc, s). length s)") auto

definition Split :: "string \<Rightarrow> string \<Rightarrow> string list" where
  "Split s sep = Split_from sep [] s"

definition digit_char :: "nat \<Rightarrow> char" where
  "digit_char d = ''0123456789'' ! d"

fun Itoa_nat :: "nat \<Rightarrow> string" where
  "Itoa_nat n = (if n < 10 then [digit_char n] else Itoa_nat (n div 10) @ [digit_char (n mod 10)])"

declare Itoa_nat.simps [simp del]

text \<open>The verb \<^verbatim>\<open>%d\<close> of \<^verbatim>\<open>fmt\<close>.\<close>

definition Itoa :: "int \<Rightarrow> string" where
  "Itoa i = (if i < 0 then CHR ''-'' # Itoa_nat (nat (- i)) else Itoa_nat (nat i))"

text \<open>
  The verb \<^verbatim>\<open>%.1f\<close> applied to \<open>n / d\<close> for \<open>0 \<le> n\<close> and \<open>0 < d\<close>: the quotient
  rounded to one decimal, ties to even. The quotient is taken exactly; the rounding of
  the float64 operations that produce the argument is not modelled.
\<close>

definition Format_1f :: "int \<Rightarrow> int \<Rightarrow> string" where
  "Format_1f n d =
     (let q = (10 * n) div d; r = (10 * n) mod d;
          tenths = (if 2 * r < d then q else if d < 2 * r then q + 1
                    else if even q then q else q + 1)
      in Itoa (tenths div 10) @ ''.'' @ Itoa (tenths mod 10))"

section \<open>The world outside the process\<close>

text \<open>
  Every answer of a collaborator (the HTTP peers, Redis, the file system, the JSON and
  base64 decoders of the standard library, the UUID generator, the clock, the
  environment variables) is a field of one record, so that each function below is a
  function of its arguments and of the answers it receives. The calls it makes are
  returned as a trace. An HTTP exchange either fails to be sent, or yields a status and
  then either a read error or the body.
\<close>

datatype http_reply =
    SendError string
  | ReadError int string
  | Reply int string

record NanoBananaTaskResponse =
  task_Code :: int
  task_Msg :: string
  task_State :: string
  ResultJSON :: string
  FailCode :: string
  FailMsg :: string

datatype event =
    EvRedisSet string int
  | EvRedisDel string
  | EvCreateTask string
  | EvPoll int
  | EvSleep int
  | EvOpenAI
  | EvDownload string
  | EvWriteFile string

fun is_poll :: "event \<Rightarrow> bool" where
  "is_poll (EvPoll i) = True"
| "is_poll e = False"

fun is_sleep :: "event \<Rightarrow> bool" where
  "is_sleep (EvSleep d) = True"
| "is_sleep e = False"

record world =
  nanoBananaKey :: string
  openAIKey :: string
  storageDir :: string
  BASE_URL :: string
  Local :: Location
  t_check :: instant
  t_decide :: instant
  t_use :: instant
  t_stamp :: instant
  t_set :: instant
  t_unix :: int
  imageUUID :: string
  fileUUID :: string
  generationUUID :: string
  responseUUID :: string
  DecodeString :: "string \<Rightarrow> string + string"
  redis_set_error :: "string option"
  redis_del_ok :: bool
  createTask_http :: "string \<Rightarrow> string \<Rightarrow> http_reply"
  unmarshal_createTask :: "string \<Rightarrow> string + int \<times> string \<times> string"
  newRequest_error :: "string \<Rightarrow> string option"
  poll_http :: "int \<Rightarrow> http_reply"
  unmarshal_task :: "string \<Rightarrow> string + NanoBananaTaskResponse"
  unmarshal_result :: "string \<Rightarrow> string + string list"
  openai_http :: http_reply
  unmarshal_openai :: "string \<Rightarrow> string + string list \<times> string option"
  http_get :: "string \<Rightarrow> http_reply"
  mkdirAll_error :: "string \<Rightarrow> string option"
  writeFile_error :: "string \<Rightarrow> string option"

section \<open>Staging cache (Redis)\<close>

text \<open>
  A key set with a time to live holds its value and the instant it expires at; a read
  at or after that instant finds nothing (\<^verbatim>\<open>redis.Nil\<close>). \<^verbatim>\<open>Del\<close> removes the key
  when the command reaches the server; the handler ignores its result. A read that
  cannot reach the server (status 500 at the image endpoint) is outside the model.
\<close>

type_synonym Redis = "string \<rightharpoonup> string \<times> instant"

definition redis_Set ::
  "Redis \<Rightarrow> string \<Rightarrow> string \<Rightarrow> int \<Rightarrow> instant \<Rightarrow> string option \<Rightarrow> string option \<times> Redis" where
  "redis_Set R key val ttl now err =
     (case err of Some e \<Rightarrow> (Some e, R) | None \<Rightarrow> (None, R(key \<mapsto> (val, now + ttl))))"

definition redis_Del :: "Redis \<Rightarrow> string \<Rightarrow> bool \<Rightarrow> Redis" where
  "redis_Del R key ok = (if ok then R(key := None) else R)"

definition redis_Get :: "Redis \<Rightarrow> string \<Rightarrow> instant \<Rightarrow> string option" where
  "redis_Get R key now =
     (case R key of None \<Rightarrow> None | Some (val, expiry) \<Rightarrow> if now < expiry then Some val else None)"

definition HasSuffix :: "string \<Rightarrow> string \<Rightarrow> bool" where
  "HasSuffix s suffix = HasPrefix (rev s) (rev suffix)"

text \<open>\<^verbatim>\<open>GET /api/image/:imageId\<close>: the status, the content type and the bytes.\<close>

definition image_endpoint :: "Redis \<Rightarrow> string \<Rightarrow> instant \<Rightarrow> nat \<times> string \<times> string" where
  "image_endpoint R imageID now =
     (case redis_Get R (''image:'' @ imageID) now of
        None \<Rightarrow> (404, [], [])
      | Some imageData \<Rightarrow>
          (200,
           (if HasSuffix imageID ''.jpg'' \<or> HasSuffix imageID ''.jpeg'' then ''image/jpeg''
            else if HasSuffix imageID ''.webp'' then ''image/webp''
            else ''image/png''),
           imageData))"

section \<open>Provider adapters (backend/payment.go)\<close>

text \<open>
  An error is its message, built as \<^verbatim>\<open>fmt.Errorf\<close> builds it. The branches for a
  failure of \<^verbatim>\<open>json.Marshal\<close> on the request structs and of \<^verbatim>\<open>http.NewRequest\<close>
  on a constant URL cannot be taken and are left out; the poll request, whose URL
  holds the task id, keeps its branch.
\<close>

text \<open>\<^verbatim>\<open>filepath.Join\<close> of two clean, non-empty path elements.\<close>

definition Join :: "string \<Rightarrow> string \<Rightarrow> string" where
  "Join a b = a @ ''/'' @ b"

definition downloadAndSaveImage ::
  "world \<Rightarrow> string \<Rightarrow> string \<Rightarrow> string \<Rightarrow> (string + string) \<times> event list" where
  "downloadAndSaveImage w imageURL userID storageDir' =
     (let bad_status = (\<lambda>st. Inl (''failed to download image: status '' @ Itoa st)) in
      case http_get w imageURL of
        SendError e \<Rightarrow> (Inl (''failed to download image: '' @ e), [EvDownload imageURL])
      | ReadError st e \<Rightarrow>
          (if st \<noteq> 200 then bad_status st else Inl (''failed to read image data: '' @ e),
           [EvDownload imageURL])
      | Reply st imageData \<Rightarrow>
          if st \<noteq> 200 then (bad_status st, [EvDownload imageURL])
          else
            (let userDir = Join storageDir' userID in
             case mkdirAll_error w userDir of
               Some e \<Rightarrow> (Inl (''failed to create user directory: '' @ e), [EvDownload imageURL])
             | None \<Rightarrow>
                 (let filename = fileUUID w @ ''_'' @ Itoa (t_unix w) @ ''.png'';
                      filePath = Join userDir filename
                  in case writeFile_error w filePath of
                       Some e \<Rightarrow>
                         (Inl (''failed to save image: '' @ e),
                          [EvDownload imageURL, EvWriteFile filePath])
                     | None \<Rightarrow>
                         (Inr (Join userID filename),
                          [EvDownload imageURL, EvWriteFile filePath]))))"

definition openai_default_prompt :: string where
  "openai_default_prompt =
     ''Create a professional YouTube thumbnail cover based on this collage. Make it visually appealing, modern, and optimized for video thumbnails. Ensure high quality and attention-grabbing design.''"

definition base_url :: "world \<Rightarrow> string" where
  "base_url w = (if BASE_URL w = [] then ''http://localhost:8080'' else BASE_URL w)"

definition generateCoverWithOpenAI ::
  "world \<Rightarrow> string \<Rightarrow> string \<Rightarrow> string \<Rightarrow> string \<Rightarrow> string \<Rightarrow> (string + string) \<times> event list" where
  "generateCoverWithOpenAI w imageData apiKey userID storageDir' customPrompt =
     (case openai_http w of
        SendError e \<Rightarrow> (Inl (''failed to send request: '' @ e), [EvOpenAI])
      | ReadError st e \<Rightarrow> (Inl (''failed to read response: '' @ e), [EvOpenAI])
      | Reply st body \<Rightarrow>
          if st \<noteq> 200
          then (Inl (''OpenAI API error: '' @ body @ '' (status: '' @ Itoa st @ '')''), [EvOpenAI])
          else
            (case unmarshal_openai w body of
               Inl e \<Rightarrow> (Inl (''failed to unmarshal response: '' @ e), [EvOpenAI])
             | Inr (urls, err) \<Rightarrow>
                 (case err of
                    Some message \<Rightarrow> (Inl (''OpenAI API error: '' @ message), [EvOpenAI])
                  | None \<Rightarrow>
                      (case urls of
                         [] \<Rightarrow> (Inl ''no image URL in response'', [EvOpenAI])
                       | resultURL # _ \<Rightarrow>
                           (let (saved, evs) = downloadAndSaveImage w resultURL userID storageDir'
                            in case saved of
                                 Inl e \<Rightarrow> (Inr resultURL, EvOpenAI # evs)
                               | Inr savedPath \<Rightarrow>
                                   (Inr (base_url w @ ''/storage/'' @ savedPath), EvOpenAI # evs))))))"

definition nanobanana_default_prompt :: string where
  "nanobanana_default_prompt =
     ''Transform this collage into a professional YouTube thumbnail cover. '' @
     ''Make it visually striking, modern, and optimized for video thumbnails. '' @
     ''Ensure high quality, attention-grabbing design with good contrast and readable text. '' @
     ''Maintain the key elements from the collage but enhance them professionally. '' @
     ''Use 16:9 aspect ratio suitable for YouTube thumbnails.''"

definition createNanoBananaTask ::
  "world \<Rightarrow> string \<Rightarrow> string \<Rightarrow> string \<Rightarrow> (string + string) \<times> event list" where
  "createNanoBananaTask w imageURL apiKey customPrompt =
     (let prompt = (if customPrompt = [] then nanobanana_default_prompt else customPrompt) in
      (case createTask_http w imageURL prompt of
         SendError e \<Rightarrow> Inl (''failed to send request: '' @ e)
       | ReadError st e \<Rightarrow> Inl (''failed to read response: '' @ e)
       | Reply st body \<Rightarrow>
           if st = 401 then Inl ''authentication failed: check your NANO_BANANA_API_KEY''
           else if st = 402 then Inl ''insufficient account balance''
           else if st = 429 then Inl ''rate limit exceeded, please try again later''
           else if st \<noteq> 200
           then Inl (''nano banana API error: '' @ body @ '' (status: '' @ Itoa st @ '')'')
           else
             (case unmarshal_createTask w body of
                Inl e \<Rightarrow> Inl (''failed to unmarshal response: '' @ e)
              | Inr (code, msg, taskID) \<Rightarrow>
                  if code \<noteq> 200 then
                    (let errorMsg =
                       (if code = 400 then ''invalid request parameters: '' @ msg
                        else if code = 401 then ''authentication failed: '' @ msg
                        else if code = 402 then ''insufficient account balance: '' @ msg
                        else if code = 422 then ''parameter validation failed: '' @ msg
                        else if code = 429 then ''rate limit exceeded: '' @ msg
                        else if code = 500 then ''internal server error: '' @ msg
                        else msg)
                     in Inl (''nano banana API error: '' @ errorMsg @ '' (code: '' @ Itoa code @ '')''))
                  else if taskID = [] then Inl ''no task ID in response''
                  else Inr taskID)),
      [EvCreateTask imageURL])"

text \<open>
  One iteration of the poll loop, up to its \<^verbatim>\<open>time.Sleep\<close>: either the function
  returns, or the loop goes on after sleeping.
\<close>

datatype poll_step = Continue | Return "string + string"

definition poll_attempt :: "world \<Rightarrow> string \<Rightarrow> int \<Rightarrow> poll_step \<times> event list" where
  "poll_attempt w url i =
     (case newRequest_error w url of
        Some e \<Rightarrow> (Return (Inl (''failed to create request: '' @ e)), [])
      | None \<Rightarrow>
          ((case poll_http w i of
              SendError e \<Rightarrow> Continue
            | ReadError st e \<Rightarrow> Continue
            | Reply st body \<Rightarrow>
                (case unmarshal_task w body of
                   Inl e \<Rightarrow> Continue
                 | Inr taskResp \<Rightarrow>
                     if task_Code taskResp \<noteq> 200
                     then Return (Inl (''nano banana API error: '' @ task_Msg taskResp @
                                       '' (code: '' @ Itoa (task_Code taskResp) @ '')''))
                     else if task_State taskResp = ''success'' then
                       (if ResultJSON taskResp = [] then Return (Inl ''empty result JSON in response'')
                        else
                          (case unmarshal_result w (ResultJSON taskResp) of
                             Inl e \<Rightarrow> Return (Inl (''failed to parse result JSON: '' @ e))
                           | Inr ResultUrls \<Rightarrow>
                               (case ResultUrls of
                                  [] \<Rightarrow> Return (Inl ''no result URLs in response'')
                                | u # _ \<Rightarrow> Return (Inr u))))
                     else if task_State taskResp = ''fail'' then
                       (let failMsg = (if FailMsg taskResp = [] then ''unknown error''
                                       else FailMsg taskResp)
                        in Return (Inl (''task failed: '' @ failMsg @ '' (failCode: '' @
                                        FailCode taskResp @ '')'')))
                     else Continue)),
           [EvPoll i]))"

definition timeout_error :: "int \<Rightarrow> int \<Rightarrow> string" where
  "timeout_error maxAttempts interval =
     ''task timeout after '' @ Itoa maxAttempts @ '' attempts (approximately '' @
     Format_1f (maxAttempts * interval) 60 @ '' minutes)''"

function poll_loop ::
  "world \<Rightarrow> string \<Rightarrow> int \<Rightarrow> int \<Rightarrow> int \<Rightarrow> (string + string) \<times> event list" where
  "poll_loop w url maxAttempts interval i =
     (if i < maxAttempts then
        (case poll_attempt w url i of
           (Return r, evs) \<Rightarrow> (r, evs)
         | (Continue, evs) \<Rightarrow>
             (let (r, rest) = poll_loop w url maxAttempts interval (i + 1)
              in (r, evs @ EvSleep interval # rest)))
      else (Inl (timeout_error maxAttempts interval), []))"
  by pat_completeness auto
termination
  by (relation "measure (\<lambda>(w, url, maxAttempts, interval, i). nat (maxAttempts - i))") auto

declare poll_loop.simps [simp del]

text \<open>The interval is in seconds.\<close>

definition recordInfo_url :: "string \<Rightarrow> string" where
  "recordInfo_url taskID = ''https://api.kie.ai/api/v1/jobs/recordInfo?taskId='' @ taskID"

definition pollNanoBananaTask ::
  "world \<Rightarrow> string \<Rightarrow> string \<Rightarrow> int \<Rightarrow> int \<Rightarrow> (string + string) \<times> event list" where
  "pollNanoBananaTask w taskID apiKey maxAttempts interval =
     poll_loop w (recordInfo_url taskID) maxAttempts interval 0"

definition generateCoverWithNanoBanana ::
  "world \<Rightarrow> Redis \<Rightarrow> string \<Rightarrow> string \<Rightarrow> string \<Rightarrow> string \<Rightarrow> string \<Rightarrow> string \<Rightarrow>
     (string + string) \<times> Redis \<times> event list" where
  "generateCoverWithNanoBanana w R imageData imageFormat apiKey userID storageDir' customPrompt =
     (case DecodeString w imageData of
        Inl e \<Rightarrow> (Inl (''failed to decode base64 image: '' @ e), R, [])
      | Inr decodedData \<Rightarrow>
          if 10 * 1024 * 1024 < length decodedData
          then (Inl ''image size exceeds 10MB limit'', R, [])
          else
            (let imageID = imageUUID w @ ''.'' @ imageFormat;
                 redisKey = ''image:'' @ imageID;
                 (err, R) = redis_Set R redisKey decodedData (30 * 60) (t_set w) (redis_set_error w);
                 ev0 = [EvRedisSet redisKey (30 * 60)]
             in case err of
                  Some e \<Rightarrow> (Inl (''failed to save image to Redis: '' @ e), R, ev0)
                | None \<Rightarrow>
                    (let baseURL = base_url w;
                         imageURL = baseURL @ ''/api/image/'' @ imageID;
                         (task, ev1) = createNanoBananaTask w imageURL apiKey customPrompt
                     in case task of
                          Inl e \<Rightarrow>
                            (Inl (''failed to create Nano Banana task: '' @ e),
                             redis_Del R redisKey (redis_del_ok w),
                             ev0 @ ev1 @ [EvRedisDel redisKey])
                        | Inr taskID \<Rightarrow>
                            (let maxAttempts = 120;
                                 interval = 5;
                                 (polled, ev2) = pollNanoBananaTask w taskID apiKey maxAttempts interval
                             in case polled of
                                  Inl e \<Rightarrow>
                                    (Inl (''failed to get Nano Banana result: '' @ e),
                                     redis_Del R redisKey (redis_del_ok w),
                                     ev0 @ ev1 @ ev2 @ [EvRedisDel redisKey])
                                | Inr resultURL \<Rightarrow>
                                    (let R = redis_Del R redisKey (redis_del_ok w);
                                         (saved, ev3) =
                                            downloadAndSaveImage w resultURL userID storageDir';
                                         evs = ev0 @ ev1 @ ev2 @ [EvRedisDel redisKey] @ ev3
                                     in case saved of
                                          Inl e \<Rightarrow> (Inr resultURL, R, evs)
                                        | Inr savedPath \<Rightarrow>
                                            (Inr (baseURL @ ''/storage/'' @ savedPath), R, evs))))))"

section \<open>Generation orchestrator (backend/payment.go, the generate-cover handler)\<close>

record GenerateCoverRequest =
  req_Image :: string
  req_Provider :: string
  req_Prompt :: string

text \<open>The value stored in the session under \<^verbatim>\<open>user_id\<close>, when there is one.\<close>

datatype session_value = SString string | SOther

datatype body =
    ErrorBody string
  | InvalidProvider
  | NoGenerationsLeft int64
  | GenerationFailed string
  | Cover string string

datatype response = Response nat body


text \<open>
  The account the request is charged to: the session's \<^verbatim>\<open>user_id\<close> when it is a
  string, the fixed name \<open>anonymous\<close> otherwise.
\<close>

definition session_user_id :: "session_value option \<Rightarrow> string" where
  "session_user_id userIDValue =
     (case userIDValue of Some (SString uid) \<Rightarrow> uid | _ \<Rightarrow> ''anonymous'')"

text \<open>The data-URI prefix is removed; the result is the payload and the image format.\<close>

definition parse_image :: "string \<Rightarrow> string \<times> string" where
  "parse_image imageData =
     (if HasPrefix imageData ''data:image'' then
        (let parts = Split imageData '';base64,'' in
         if length parts = 2 then
           (let formatPart = Split (parts ! 0) ''/''
            in (parts ! 1, if length formatPart = 2 then formatPart ! 1 else []))
         else
           (let parts = Split imageData '',''
            in if length parts = 2 then (parts ! 1, []) else (imageData, [])))
      else (imageData, []))"

definition statusCode_for :: "string \<Rightarrow> nat" where
  "statusCode_for errMsg =
     (if Contains errMsg ''API key not configured'' \<or> Contains errMsg ''IMGBB_API_KEY not set''
      then 400
      else if Contains errMsg ''authentication failed'' \<or>
              Contains errMsg ''insufficient account balance''
      then 401
      else 500)"

definition Create_generation :: "DB \<Rightarrow> Generation \<Rightarrow> DB" where
  "Create_generation db g = db\<lparr>generations := generations db @ [g]\<rparr>"

text \<open>
  The end of the handler, from the comment \<^verbatim>\<open>If generation successful, use up generation
  credit\<close>: the settlement, the record and the response. The error of
  \<^verbatim>\<open>UseGeneration\<close> is printed and dropped.
\<close>

definition settle_and_respond ::
  "world \<Rightarrow> DB \<Rightarrow> string \<Rightarrow> string \<Rightarrow> bool \<Rightarrow> string + string \<Rightarrow> response \<times> DB" where
  "settle_and_respond w db userIDStr provider useFree result =
     (case result of
        Inr coverURL \<Rightarrow>
          (let (err, db) = UseGeneration db userIDStr useFree (Local w) (t_use w) (t_stamp w);
               generation = \<lparr>gen_ID = generationUUID w, gen_UserID = userIDStr,
                              ImageURL = coverURL, Provider = provider, IsFree = useFree\<rparr>;
               db = Create_generation db generation
           in (Response 200 (Cover (responseUUID w) coverURL), db))
      | Inl errMsg \<Rightarrow>
          (Response (statusCode_for errMsg) (GenerationFailed errMsg), db))"

definition zero_User :: User where
  "zero_User = \<lparr>ID = [], FreeGenerationsLeft = 0, LastFreeGeneration = 0, PaidGenerations = 0\<rparr>"

text \<open>
  Whether the attempt is charged to the free allowance. The row is read again after the
  eligibility check; a failed read would leave the zero value of the struct.
\<close>

definition decide_useFree :: "DB \<Rightarrow> string \<Rightarrow> Location \<Rightarrow> instant \<Rightarrow> bool" where
  "decide_useFree db userIDStr loc now =
     (let user = (case First_user db userIDStr of Inl e \<Rightarrow> zero_User | Inr u \<Rightarrow> u);
          today = today_of loc now
      in 0 <s FreeGenerationsLeft user \<and>
         (Before (LastFreeGeneration user) today \<or> IsZero (LastFreeGeneration user)))"

text \<open>
  The handler up to the call of the provider: either it has answered, or it holds the
  account, the provider, the flag it chose and the result of the generation function.
\<close>

type_synonym attempt = "response + string \<times> string \<times> bool \<times> (string + string)"

definition generate_cover_begin ::
  "world \<Rightarrow> DB \<Rightarrow> Redis \<Rightarrow> GenerateCoverRequest option \<Rightarrow> session_value option \<Rightarrow>
     attempt \<times> DB \<times> Redis \<times> event list" where
  "generate_cover_begin w db R body userIDValue =
     (case body of
        None \<Rightarrow> (Inl (Response 400 (ErrorBody ''Invalid request body'')), db, R, [])
      | Some req \<Rightarrow>
          (let userIDStr = session_user_id userIDValue;
               provider = (if req_Provider req = [] then ''nanobanana'' else req_Provider req);
               (imageData, imageFormat) = parse_image (req_Image req);
               imageFormat = (if imageFormat = [] then ''png'' else imageFormat);
               ((canGenerate, remaining, err), db) =
                  CheckGenerationLimit db userIDStr (Local w) (t_check w)
           in if err \<noteq> None
              then (Inl (Response 500 (ErrorBody ''Failed to check generation limit'')), db, R, [])
              else if \<not> canGenerate
              then (Inl (Response 402 (NoGenerationsLeft remaining)), db, R, [])
              else
                (let useFree = decide_useFree db userIDStr (Local w) (t_decide w)
                 in if provider = ''nanobanana'' then
                      (if nanoBananaKey w = []
                       then (Inl (Response 500 (ErrorBody ''Nano Banana API key not configured'')),
                             db, R, [])
                       else
                         (let (result, R, evs) =
                                generateCoverWithNanoBanana w R imageData imageFormat
                                  (nanoBananaKey w) userIDStr (storageDir w) (req_Prompt req)
                          in (Inr (userIDStr, provider, useFree, result), db, R, evs)))
                    else if provider = ''openai'' then
                      (if openAIKey w = []
                       then (Inl (Response 500 (ErrorBody ''OpenAI API key not configured'')),
                             db, R, [])
                       else
                         (let (result, evs) =
                                generateCoverWithOpenAI w imageData (openAIKey w) userIDStr
                                  (storageDir w) (req_Prompt req)
                          in (Inr (userIDStr, provider, useFree, result), db, R, evs)))
                    else (Inl (Response 400 InvalidProvider), db, R, []))))"

text \<open>The rest of the handler, on the database as it is by then.\<close>

definition generate_cover_end :: "world \<Rightarrow> DB \<Rightarrow> attempt \<Rightarrow> response \<times> DB" where
  "generate_cover_end w db a =
     (case a of
        Inl resp \<Rightarrow> (resp, db)
      | Inr (userIDStr, provider, useFree, result) \<Rightarrow>
          settle_and_respond w db userIDStr provider useFree result)"

text \<open>One request, served with no other request in between.\<close>

definition generate_cover ::
  "world \<Rightarrow> DB \<Rightarrow> Redis \<Rightarrow> GenerateCoverRequest option \<Rightarrow> session_value option \<Rightarrow>
     response \<times> DB \<times> Redis \<times> event list" where
  "generate_cover w db R body userIDValue =
     (let (a, db, R, evs) = generate_cover_begin w db R body userIDValue;
          (resp, db) = generate_cover_end w db a
      in (resp, db, R, evs))"


text \<open>
  The rows the program writes: a row has no free generation, or it has one and the
  zero stamp. \<^verbatim>\<open>GetOrCreateUser\<close> creates such a row, and the three functions that
  rewrite rows keep the property (lemmas \<open>ok_rows_created\<close> to \<open>ok_rows_paid\<close> below).
\<close>

definition ok_row :: "User \<Rightarrow> bool" where
  "ok_row u = (FreeGenerationsLeft u = 0 \<or>
               (FreeGenerationsLeft u = 1 \<and> LastFreeGeneration u = 0))"

definition ok_rows :: "DB \<Rightarrow> bool" where
  "ok_rows db = list_all ok_row (users db)"

section \<open>Example states\<close>

text \<open>An account row of user \<open>u1\<close>, and the database that holds only that row.\<close>

definition account_row :: "int64 \<Rightarrow> instant \<Rightarrow> int64 \<Rightarrow> User" where
  "account_row free stamp paid =
     \<lparr>ID = ''u1'', FreeGenerationsLeft = free, LastFreeGeneration = stamp,
      PaidGenerations = paid\<rparr>"

definition single_account :: "User \<Rightarrow> DB" where
  "single_account u = \<lparr>users = [u], generations = [], transactions = []\<rparr>"

text \<open>
  A pending purchase of package \<open>pack2\<close> by \<open>u1\<close>, and the notification of its success
  under the order reference \<open>o1\<close>.
\<close>

definition pack2_intent :: Transaction where
  "pack2_intent =
     \<lparr>tx_ID = ''t1'', tx_UserID = ''u1'', PackageType = ''pack2'', Status = ''pending'',
      LavaOrderID = ''o1''\<rparr>"

definition shop_db :: DB where
  "shop_db = \<lparr>users = [account_row 0 0 0], generations = [], transactions = [pack2_intent]\<rparr>"

definition success_fields :: "string \<rightharpoonup> json" where
  "success_fields = [''order_id'' \<mapsto> JString ''o1'', ''status'' \<mapsto> JString ''success'']"

text \<open>
  A world in which every collaborator answers well: the provider accepts the task,
  reports it waiting on the first \<open>n\<close> polls and done from then on, and the result can
  be downloaded and stored.
\<close>

definition waiting_task :: NanoBananaTaskResponse where
  "waiting_task =
     \<lparr>task_Code = 200, task_Msg = ''success'', task_State = ''waiting'', ResultJSON = [],
      FailCode = [], FailMsg = []\<rparr>"

definition done_task :: NanoBananaTaskResponse where
  "done_task =
     \<lparr>task_Code = 200, task_Msg = ''success'', task_State = ''success'', ResultJSON = ''urls'',
      FailCode = [], FailMsg = []\<rparr>"

definition provider_world :: "int \<Rightarrow> world" where
  "provider_world n =
     \<lparr>nanoBananaKey = ''key1'', openAIKey = ''key2'', storageDir = ''storage'',
      BASE_URL = ''https://cover.example'',
      Local = fixed_zone 0,
      t_check = 90000, t_decide = 90000, t_use = 90600, t_stamp = 90600, t_set = 90001,
      t_unix = 90700,
      imageUUID = ''img'', fileUUID = ''file'', generationUUID = ''gen'', responseUUID = ''resp'',
      DecodeString = (\<lambda>s. Inr s),
      redis_set_error = None,
      redis_del_ok = True,
      createTask_http = (\<lambda>imageURL prompt. Reply 200 ''created''),
      unmarshal_createTask = (\<lambda>body. Inr (200, ''success'', ''task1'')),
      newRequest_error = (\<lambda>url. None),
      poll_http = (\<lambda>i. Reply 200 (if i < n then ''waiting'' else ''done'')),
      unmarshal_task = (\<lambda>body. if body = ''waiting'' then Inr waiting_task else Inr done_task),
      unmarshal_result = (\<lambda>resultJSON. Inr [''https://provider.example/result.png'']),
      openai_http = Reply 200 ''images'',
      unmarshal_openai = (\<lambda>body. Inr ([''https://openai.example/result.png''], None)),
      http_get = (\<lambda>url. Reply 200 ''png''),
      mkdirAll_error = (\<lambda>path. None),
      writeFile_error = (\<lambda>path. None)\<rparr>"


text \<open>The same world with a Redis that is lost after the image was stored.\<close>

definition lost_redis_world :: world where
  "lost_redis_world = (provider_world 0)\<lparr>redis_del_ok := False\<rparr>"

text \<open>
  The same world on a server nine hours east of UTC: there the day of the request
  (instant 90000, 01:00 UTC of the second day) started at instant 54000.
\<close>

definition eastern_world :: world where
  "eastern_world = (provider_world 0)\<lparr>Local := fixed_zone 32400\<rparr>"



definition cover_request :: GenerateCoverRequest where
  "cover_request = \<lparr>req_Image = ''AAAA'', req_Provider = [], req_Prompt = []\<rparr>"

definition openai_request :: GenerateCoverRequest where
  "openai_request = \<lparr>req_Image = ''AAAA'', req_Provider = ''openai'', req_Prompt = []\<rparr>"

definition empty_redis :: Redis where
  "empty_redis = Map.empty"

section \<open>Rows and tables\<close>

lemma find_row_ID: "find (\<lambda>x. ID x = k) xs = Some u \<Longrightarrow> ID u = k"
  by (induction xs) (auto split: if_splits)

lemma find_replace_row:
  "find (\<lambda>x. ID x = k) xs = Some u \<Longrightarrow> ID u' = k \<Longrightarrow>
   find (\<lambda>x. ID x = k) (map (\<lambda>x. if ID x = ID u' then u' else x) xs) = Some u'"
  by (induction xs) (auto split: if_splits)

lemma First_user_ID: "First_user db userID = Inr user \<Longrightarrow> ID user = userID"
  by (auto simp: First_user_def split: option.splits dest: find_row_ID)

lemma First_user_Save:
  "First_user db userID = Inr user \<Longrightarrow> ID user' = userID \<Longrightarrow>
   First_user (Save_user db user') userID = Inr user'"
  by (auto simp: First_user_def Save_user_def find_replace_row split: option.splits)

lemma find_tx_order: "find (\<lambda>x. LavaOrderID x = k) ts = Some t \<Longrightarrow> LavaOrderID t = k"
  by (induction ts) (auto split: if_splits)

lemma find_replace_tx:
  "find (\<lambda>x. LavaOrderID x = k) ts = Some t \<Longrightarrow> tx_ID t' = tx_ID t \<Longrightarrow> LavaOrderID t' = k \<Longrightarrow>
   find (\<lambda>x. LavaOrderID x = k) (map (\<lambda>x. if tx_ID x = tx_ID t' then t' else x) ts) = Some t'"
  by (induction ts) (auto split: if_splits)

lemma First_transaction_Save:
  assumes "First_transaction db orderID = Inr t"
  shows "First_transaction (Save_transaction db (t\<lparr>Status := st\<rparr>)) orderID =
           Inr (t\<lparr>Status := st\<rparr>)"
proof -
  from assms have f: "find (\<lambda>x. LavaOrderID x = orderID) (transactions db) = Some t"
    by (simp add: First_transaction_def split: option.splits)
  have "find (\<lambda>x. LavaOrderID x = orderID)
          (map (\<lambda>x. if tx_ID x = tx_ID (t\<lparr>Status := st\<rparr>) then t\<lparr>Status := st\<rparr> else x)
             (transactions db)) = Some (t\<lparr>Status := st\<rparr>)"
    by (rule find_replace_tx [OF f]) (simp_all add: find_tx_order [OF f])
  then show ?thesis by (simp add: First_transaction_def Save_transaction_def)
qed

lemma First_user_Save_transaction: "First_user (Save_transaction db t) k = First_user db k"
  by (simp add: First_user_def Save_transaction_def)

lemma First_transaction_Save_user: "First_transaction (Save_user db u) k = First_transaction db k"
  by (simp add: First_transaction_def Save_user_def)

lemma zero_sless_one: "(0::int64) <s 1"
  by (simp add: word_sless_alt)

text \<open>
  In a zone at a fixed offset, the test \<^verbatim>\<open>LastFreeGeneration.Before(today)\<close> holds
  exactly when the stamp lies on a local calendar day strictly before the local day of
  \<open>now\<close>.
\<close>

lemma Before_today_iff:
  "Before t (today_of (fixed_zone offset) now) \<longleftrightarrow>
   (t + offset) div 86400 < (now + offset) div 86400"
proof -
  have a: "today_of (fixed_zone offset) now = ((now + offset) div 86400) * 86400 - offset"
    unfolding today_of_def fixed_zone_def by (simp add: minus_mod_eq_div_mult [symmetric])
  have b: "t + offset = ((t + offset) div 86400) * 86400 + (t + offset) mod 86400" by simp
  have c: "0 \<le> (t + offset) mod 86400" "(t + offset) mod 86400 < 86400" by simp_all
  show ?thesis unfolding Before_def a using b c by linarith
qed

section \<open>Payment reconciler: settlement notifications\<close>

text \<open>
  C1, as the code has it. The webhook never reads the status of the transaction it
  finds: for a known order reference, a known package and an existing user, every
  notification of success (status \<open>success\<close> or \<open>completed\<close>) answers 200, leaves the
  transaction \<open>completed\<close> and adds the count of the package to \<open>PaidGenerations\<close>,
  whatever the status of the transaction was, \<open>completed\<close> and \<open>failed\<close> included.
\<close>

theorem webhook_credits_each_notification:
  assumes "First_transaction db orderID = Inr t"
    and "find (\<lambda>pkg. pkg_Type pkg = PackageType t) Packages = Some pkg"
    and "First_user db (tx_UserID t) = Inr u"
    and "webhookData ''order_id'' = Some (JString orderID)"
    and "webhookData ''status'' = Some (JString status)"
    and "status = ''success'' \<or> status = ''completed''"
  shows "fst (payment_webhook db (Some webhookData)) = 200 \<and>
         First_transaction (snd (payment_webhook db (Some webhookData))) orderID =
           Inr (t\<lparr>Status := ''completed''\<rparr>) \<and>
         First_user (snd (payment_webhook db (Some webhookData))) (tx_UserID t) =
           Inr (u\<lparr>PaidGenerations := PaidGenerations u + pkg_Count pkg\<rparr>)"
proof -
  let ?t = "t\<lparr>Status := ''completed''\<rparr>"
  let ?db1 = "Save_transaction db ?t"
  let ?u = "u\<lparr>PaidGenerations := PaidGenerations u + pkg_Count pkg\<rparr>"
  have u1: "First_user ?db1 (tx_UserID t) = Inr u"
    using assms(3) by (simp add: First_user_Save_transaction)
  have idu: "ID u = tx_UserID t"
    using assms(3) by (rule First_user_ID)
  have add: "AddPaidGenerations ?db1 (tx_UserID t) (pkg_Count pkg) = (None, Save_user ?db1 ?u)"
    using u1 by (simp add: AddPaidGenerations_def)
  have run: "payment_webhook db (Some webhookData) = (200, Save_user ?db1 ?u)"
    using assms(1,2,4,5,6) add by (auto simp: payment_webhook_def as_string_def Let_def)
  show ?thesis
    using u1 idu assms(1)
    by (simp add: run First_user_Save First_transaction_Save_user First_transaction_Save)
qed

theorem webhook_credits_each_notification_witness:
  "fst (payment_webhook shop_db (Some success_fields)) = 200 \<and>
   First_transaction (snd (payment_webhook shop_db (Some success_fields))) ''o1'' =
     Inr (pack2_intent\<lparr>Status := ''completed''\<rparr>) \<and>
   First_user (snd (payment_webhook shop_db (Some success_fields))) ''u1'' =
     Inr (account_row 0 0 30)"
proof -
  have t: "First_transaction shop_db ''o1'' = Inr pack2_intent"
    by (simp add: First_transaction_def shop_db_def pack2_intent_def)
  have p: "find (\<lambda>pkg. pkg_Type pkg = PackageType pack2_intent) Packages =
             Some \<lparr>pkg_Type = ''pack2'', pkg_Count = 30, Popular = True\<rparr>"
    by (simp add: Packages_def pack2_intent_def)
  have u: "First_user shop_db (tx_UserID pack2_intent) = Inr (account_row 0 0 0)"
    by (simp add: First_user_def shop_db_def pack2_intent_def account_row_def)
  have o: "success_fields ''order_id'' = Some (JString ''o1'')"
    and s: "success_fields ''status'' = Some (JString ''success'')"
    by (simp_all add: success_fields_def)
  have c: "''success'' = ''success'' \<or> ''success'' = ''completed''"
    by simp
  have i: "tx_UserID pack2_intent = ''u1''"
    by (simp add: pack2_intent_def)
  have r: "account_row 0 0 0\<lparr>PaidGenerations := PaidGenerations (account_row 0 0 0) +
             pkg_Count \<lparr>pkg_Type = ''pack2'', pkg_Count = 30, Popular = True\<rparr>\<rparr> =
           account_row 0 0 30"
    by (simp add: account_row_def)
  show ?thesis
    using webhook_credits_each_notification [OF t p u o s c] by (simp only: i r)
qed

text \<open>
  C1 as stated fails: the success of the pending purchase \<open>pack2_intent\<close> (30
  generations) is notified twice under the same order reference. The first
  notification leaves the transaction \<open>completed\<close> and the balance at 30; the second
  one finds it \<open>completed\<close> and raises the balance to 60.
\<close>

theorem webhook_credits_twice:
  "First_transaction (snd (payment_webhook shop_db (Some success_fields))) ''o1'' =
     Inr (pack2_intent\<lparr>Status := ''completed''\<rparr>) \<and>
   First_user (snd (payment_webhook shop_db (Some success_fields))) ''u1'' =
     Inr (account_row 0 0 30) \<and>
   First_user (snd (payment_webhook (snd (payment_webhook shop_db (Some success_fields)))
                      (Some success_fields))) ''u1'' =
     Inr (account_row 0 0 60)"
  by (simp add: payment_webhook_def shop_db_def success_fields_def pack2_intent_def
      account_row_def as_string_def First_transaction_def Save_transaction_def Packages_def
      AddPaidGenerations_def First_user_def Save_user_def)

section \<open>Credit ledger: settlement and the day-boundary reset\<close>

text \<open>
  C4, as the code has it. With \<open>isFree\<close> true, the counter of free generations, after
  the day-boundary reset, decides alone: when it is positive it is decremented, the
  stamp is set and \<open>PaidGenerations\<close> is unchanged; otherwise the call fails with
  \<^verbatim>\<open>ErrRecordNotFound\<close> and changes nothing, whatever \<open>PaidGenerations\<close> holds.
  \<open>PaidGenerations\<close> is decremented only by a call with \<open>isFree\<close> false, which fails
  when it is not positive. This holds in every zone, the midnight being the one of the
  zone of the server.
\<close>

theorem UseGeneration_settles_by_flag:
  assumes "First_user db userID = Inr user"
  shows "(let free = (if Before (LastFreeGeneration user) (today_of loc now) then 1
                      else FreeGenerationsLeft user)
          in if 0 <s free
             then fst (UseGeneration db userID True loc now stamp) = None \<and>
                  First_user (snd (UseGeneration db userID True loc now stamp)) userID =
                    Inr (user\<lparr>FreeGenerationsLeft := free - 1, LastFreeGeneration := stamp\<rparr>)
             else UseGeneration db userID True loc now stamp = (Some ErrRecordNotFound, db)) \<and>
         (if 0 <s PaidGenerations user
          then fst (UseGeneration db userID False loc now stamp) = None \<and>
               First_user (snd (UseGeneration db userID False loc now stamp)) userID =
                 Inr (user\<lparr>PaidGenerations := PaidGenerations user - 1\<rparr>)
          else UseGeneration db userID False loc now stamp = (Some ErrRecordNotFound, db))"
  using assms First_user_ID [OF assms]
  by (simp add: UseGeneration_def Let_def First_user_Save)

text \<open>
  The account of the claim: one free generation (never stamped) and five paid ones, on
  a server nine hours east of UTC.
\<close>

theorem UseGeneration_settles_by_flag_witness:
  "fst (UseGeneration (single_account (account_row 1 0 5)) ''u1'' True (fixed_zone 32400)
          90000 90001) = None \<and>
   First_user (snd (UseGeneration (single_account (account_row 1 0 5)) ''u1'' True
                      (fixed_zone 32400) 90000 90001))
     ''u1'' = Inr (account_row 0 90001 5)"
proof -
  have h: "First_user (single_account (account_row 1 0 5)) ''u1'' = Inr (account_row 1 0 5)"
    by (simp add: single_account_def account_row_def First_user_def)
  have b: "Before (LastFreeGeneration (account_row 1 0 5)) (today_of (fixed_zone 32400) 90000)"
    by (simp add: account_row_def Before_def today_of_def fixed_zone_def)
  have r: "account_row 1 0 5\<lparr>FreeGenerationsLeft := 1 - 1, LastFreeGeneration := 90001\<rparr> =
           account_row 0 90001 5"
    by (simp add: account_row_def)
  from UseGeneration_settles_by_flag [OF h, of "fixed_zone 32400" 90000 90001]
  show ?thesis
    by (simp only: Let_def b zero_sless_one if_True r)
qed

text \<open>
  C4 as stated fails: the account has no free generation left today and five paid
  ones; the call with \<open>isFree\<close> true fails and debits nothing.
\<close>

theorem UseGeneration_no_paid_fallback:
  "UseGeneration (single_account (account_row 0 86400 5)) ''u1'' True (fixed_zone 0) 90000 90001 =
     (Some ErrRecordNotFound, single_account (account_row 0 86400 5))"
  by (simp add: UseGeneration_def single_account_def account_row_def First_user_def Before_def
      today_of_def fixed_zone_def)

text \<open>
  C5, as the code has it. When the stamp of the account is before the midnight that
  starts today in the zone of the server, \<^verbatim>\<open>CheckGenerationLimit\<close> stores one free
  generation and the zero stamp, and only then decides: the account can generate, with
  one more than its paid generations remaining. \<^verbatim>\<open>UseGeneration\<close> with \<open>isFree\<close>
  true sets the counter to one before it tests it, so that it succeeds whatever the
  counter held, leaving zero and the stamp of the consumption. (With \<open>isFree\<close> false
  there is no reset.)
\<close>

theorem day_reset_before_logic:
  assumes "First_user db userID = Inr user"
    and "Before (LastFreeGeneration user) (today_of loc now)"
  shows "fst (CheckGenerationLimit db userID loc now) = (True, 1 + PaidGenerations user, None) \<and>
         First_user (snd (CheckGenerationLimit db userID loc now)) userID =
           Inr (user\<lparr>FreeGenerationsLeft := 1, LastFreeGeneration := 0\<rparr>) \<and>
         fst (UseGeneration db userID True loc now stamp) = None \<and>
         First_user (snd (UseGeneration db userID True loc now stamp)) userID =
           Inr (user\<lparr>FreeGenerationsLeft := 0, LastFreeGeneration := stamp\<rparr>)"
  using assms First_user_ID [OF assms(1)]
  by (simp add: CheckGenerationLimit_def UseGeneration_def Let_def First_user_Save zero_sless_one)

text \<open>
  Nine hours east of UTC, at instant 90000, the day started at instant 54000: a stamp
  of 50000 is of the day before.
\<close>

theorem day_reset_before_logic_witness:
  "fst (CheckGenerationLimit (single_account (account_row 0 50000 2)) ''u1'' (fixed_zone 32400)
          90000) = (True, 3, None) \<and>
   First_user (snd (CheckGenerationLimit (single_account (account_row 0 50000 2)) ''u1''
                      (fixed_zone 32400) 90000))
     ''u1'' = Inr (account_row 1 0 2) \<and>
   fst (UseGeneration (single_account (account_row 0 50000 2)) ''u1'' True (fixed_zone 32400)
          90000 90001) = None \<and>
   First_user (snd (UseGeneration (single_account (account_row 0 50000 2)) ''u1'' True
                      (fixed_zone 32400) 90000 90001))
     ''u1'' = Inr (account_row 0 90001 2)"
proof -
  have h: "First_user (single_account (account_row 0 50000 2)) ''u1'' = Inr (account_row 0 50000 2)"
    by (simp add: single_account_def account_row_def First_user_def)
  have b: "Before (LastFreeGeneration (account_row 0 50000 2)) (today_of (fixed_zone 32400) 90000)"
    by (simp add: account_row_def Before_def today_of_def fixed_zone_def)
  have r: "1 + PaidGenerations (account_row 0 50000 2) = 3"
    "account_row 0 50000 2\<lparr>FreeGenerationsLeft := 1, LastFreeGeneration := 0\<rparr> = account_row 1 0 2"
    "account_row 0 50000 2\<lparr>FreeGenerationsLeft := 0, LastFreeGeneration := 90001\<rparr> =
       account_row 0 90001 2"
    by (simp_all add: account_row_def)
  from day_reset_before_logic [OF h b, of 90001]
  show ?thesis
    by (simp only: r)
qed

text \<open>
  C5 as stated fails for \<^verbatim>\<open>UseGeneration\<close> with \<open>isFree\<close> false: the account was
  never stamped, so its stamp is before today in every zone, here nine hours east of
  UTC, and the call debits a paid generation while the counter of free generations
  stays at zero.
\<close>

theorem paid_settlement_applies_no_reset:
  "UseGeneration (single_account (account_row 0 0 1)) ''u1'' False (fixed_zone 32400) 90000 90001 =
     (None, single_account (account_row 0 0 0))"
  by (simp add: UseGeneration_def single_account_def account_row_def First_user_def Save_user_def
      word_sless_alt)

section \<open>Generation orchestrator: gating, settlement and the record\<close>





lemma CheckGenerationLimit_ok_iff:
  "snd (snd (fst (CheckGenerationLimit db uid loc now))) = None \<longleftrightarrow>
   (\<exists>user. First_user db uid = Inr user)"
  by (cases "First_user db uid") (auto simp: CheckGenerationLimit_def Let_def split: if_splits)



lemma CheckGenerationLimit_absent:
  "First_user db uid = Inl e \<Longrightarrow> CheckGenerationLimit db uid loc now = ((False, 0, Some e), db)"
  by (simp add: CheckGenerationLimit_def)







text \<open>
  C6. An account that, after the day-boundary reset in the zone of the server, has no
  free generation and no paid generation is answered 402 (payment required) with zero
  remaining; the trace of calls is empty, so nothing was staged in Redis and no
  provider was called, and the database and the cache are as they were.
\<close>

theorem no_credits_payment_required:
  assumes "First_user db (session_user_id sess) = Inr user"
    and "(if Before (LastFreeGeneration user) (today_of (Local w) (t_check w)) then 1
          else FreeGenerationsLeft user) = 0"
    and "PaidGenerations user = 0"
  shows "generate_cover w db R (Some req) sess = (Response 402 (NoGenerationsLeft 0), db, R, [])"
proof -
  from assms(2) have fresh: "\<not> Before (LastFreeGeneration user) (today_of (Local w) (t_check w))"
    and free: "FreeGenerationsLeft user = 0"
    by (auto split: if_splits)
  have "CheckGenerationLimit db (session_user_id sess) (Local w) (t_check w) =
          ((False, 0, None), db)"
    using assms(1,3) fresh free by (simp add: CheckGenerationLimit_def Let_def word_sless_alt)
  then show ?thesis
    by (simp add: generate_cover_def generate_cover_begin_def generate_cover_end_def Let_def
        split: prod.splits)
qed

text \<open>
  Nine hours east of UTC the day of the request started at instant 54000, so that a
  stamp of 60000 is of today there (and of yesterday in UTC): no reset, and 402.
\<close>

theorem no_credits_payment_required_witness:
  "generate_cover eastern_world (single_account (account_row 0 60000 0)) empty_redis
     (Some cover_request) (Some (SString ''u1'')) =
   (Response 402 (NoGenerationsLeft 0), single_account (account_row 0 60000 0), empty_redis, [])"
proof -
  have u: "First_user (single_account (account_row 0 60000 0))
             (session_user_id (Some (SString ''u1''))) = Inr (account_row 0 60000 0)"
    by (simp add: First_user_def single_account_def account_row_def session_user_id_def)
  have f: "(if Before (LastFreeGeneration (account_row 0 60000 0))
                 (today_of (Local eastern_world) (t_check eastern_world))
            then 1 else FreeGenerationsLeft (account_row 0 60000 0)) = 0"
    by (simp add: account_row_def eastern_world_def provider_world_def Before_def today_of_def
        fixed_zone_def)
  have p: "PaidGenerations (account_row 0 60000 0) = 0"
    by (simp add: account_row_def)
  show ?thesis
    by (rule no_credits_payment_required [OF u f p])
qed

text \<open>
  C10. A request without a string \<^verbatim>\<open>user_id\<close> in its session is charged to the
  account \<open>anonymous\<close>. When the users table has no such row, the request is answered
  400 if its body does not bind and 500 (limit check failed) otherwise; in both cases
  the trace of calls is empty and the database and the cache are unchanged: nothing is
  staged, no provider is called, no generation is recorded.
\<close>

theorem anonymous_rejected:
  assumes "\<forall>uid. sess \<noteq> Some (SString uid)"
    and "First_user db ''anonymous'' = Inl ErrRecordNotFound"
  shows "generate_cover w db R body sess =
           (case body of
              None \<Rightarrow> Response 400 (ErrorBody ''Invalid request body'')
            | Some req \<Rightarrow> Response 500 (ErrorBody ''Failed to check generation limit''),
            db, R, [])"
proof -
  have "session_user_id sess = ''anonymous''"
    using assms(1) by (auto simp: session_user_id_def split: option.splits session_value.splits)
  then have "CheckGenerationLimit db (session_user_id sess) (Local w) (t_check w) =
               ((False, 0, Some ErrRecordNotFound), db)"
    using assms(2) by (simp add: CheckGenerationLimit_absent)
  then show ?thesis
    by (cases body)
       (simp_all add: generate_cover_def generate_cover_begin_def generate_cover_end_def Let_def
          split: prod.splits)
qed

theorem anonymous_rejected_witness:
  "generate_cover (provider_world 0) (single_account (account_row 1 0 5)) empty_redis
     (Some cover_request) None =
   (Response 500 (ErrorBody ''Failed to check generation limit''),
    single_account (account_row 1 0 5), empty_redis, [])"
proof -
  have s: "\<forall>uid. (None :: session_value option) \<noteq> Some (SString uid)"
    by simp
  have a: "First_user (single_account (account_row 1 0 5)) ''anonymous'' = Inl ErrRecordNotFound"
    by (simp add: First_user_def single_account_def account_row_def)
  from anonymous_rejected [OF s a, of "provider_world 0" empty_redis "Some cover_request"]
  show ?thesis
    by (simp only: option.case)
qed





subsection \<open>The rows the program writes\<close>

lemma ok_replace:
  "list_all ok_row xs \<Longrightarrow> ok_row u \<Longrightarrow>
   list_all ok_row (map (\<lambda>x. if ID x = ID u then u else x) xs)"
  by (induction xs) auto

lemma ok_found: "list_all ok_row xs \<Longrightarrow> find P xs = Some u \<Longrightarrow> ok_row u"
  by (induction xs) (auto split: if_splits)

lemma ok_First_user: "ok_rows db \<Longrightarrow> First_user db uid = Inr u \<Longrightarrow> ok_row u"
  by (auto simp: ok_rows_def First_user_def split: option.splits dest: ok_found)

lemma ok_Save_user: "ok_rows db \<Longrightarrow> ok_row u \<Longrightarrow> ok_rows (Save_user db u)"
  by (simp add: ok_rows_def Save_user_def ok_replace)

lemma ok_rows_created: "ok_rows db \<Longrightarrow> ok_rows (snd (GetOrCreateUser db uid))"
  by (cases "First_user db uid")
     (auto simp: GetOrCreateUser_def Let_def ok_Save_user ok_First_user,
      simp add: ok_rows_def ok_row_def)

lemma ok_rows_check: "ok_rows db \<Longrightarrow> ok_rows (snd (CheckGenerationLimit db uid loc now))"
  by (cases "First_user db uid")
     (auto simp: CheckGenerationLimit_def Let_def intro!: ok_Save_user simp: ok_row_def)

lemma ok_rows_use: "ok_rows db \<Longrightarrow> ok_rows (snd (UseGeneration db uid f loc now stamp))"
proof (cases "First_user db uid")
  case (Inl e)
  then show "ok_rows db \<Longrightarrow> ?thesis" by (simp add: UseGeneration_def)
next
  case (Inr u)
  assume ok: "ok_rows db"
  then have "ok_row u" using Inr by (rule ok_First_user)
  then show ?thesis
    using ok Inr
    by (auto simp: UseGeneration_def Let_def ok_row_def word_sless_alt intro!: ok_Save_user)
qed

lemma ok_rows_paid: "ok_rows db \<Longrightarrow> ok_rows (snd (AddPaidGenerations db uid n))"
proof (cases "First_user db uid")
  case (Inl e)
  then show "ok_rows db \<Longrightarrow> ?thesis" by (simp add: AddPaidGenerations_def)
next
  case (Inr u)
  assume ok: "ok_rows db"
  then have "ok_row u" using Inr by (rule ok_First_user)
  then show ?thesis
    using ok Inr by (auto simp: AddPaidGenerations_def ok_row_def intro!: ok_Save_user)
qed







section \<open>Provider adapter: the poll loop\<close>

lemma poll_attempt_events:
  "snd (poll_attempt w url i) = (if newRequest_error w url = None then [EvPoll i] else [])"
  by (simp add: poll_attempt_def split: option.splits)

lemma poll_attempt_Continue:
  "fst (poll_attempt w url i) = Continue \<Longrightarrow> poll_attempt w url i = (Continue, [EvPoll i])"
  by (cases "newRequest_error w url") (auto simp: poll_attempt_def prod_eq_iff)

lemma poll_attempt_Return:
  "fst (poll_attempt w url i) = Return (Inr u) \<Longrightarrow> poll_attempt w url i = (Return (Inr u), [EvPoll i])"
  by (cases "newRequest_error w url") (auto simp: poll_attempt_def prod_eq_iff)

lemma poll_loop_step:
  "i < maxAttempts \<Longrightarrow> fst (poll_attempt w url i) = Continue \<Longrightarrow>
   poll_loop w url maxAttempts interval i =
     (fst (poll_loop w url maxAttempts interval (i + 1)),
      EvPoll i # EvSleep interval # snd (poll_loop w url maxAttempts interval (i + 1)))"
  by (subst poll_loop.simps) (simp add: poll_attempt_Continue split: prod.splits)

lemma poll_loop_pending:
  assumes "\<forall>j. i \<le> j \<and> j < n \<longrightarrow> fst (poll_attempt w url j) = Continue"
    and "i \<le> n" and "n \<le> maxAttempts"
  shows "poll_loop w url maxAttempts interval i =
           (fst (poll_loop w url maxAttempts interval n),
            concat (map (\<lambda>j. [EvPoll j, EvSleep interval]) [i..n - 1]) @
            snd (poll_loop w url maxAttempts interval n))"
  using assms
proof (induction "nat (n - i)" arbitrary: i)
  case 0
  then have "i = n" by simp
  then show ?case by simp
next
  case (Suc k)
  from Suc.hyps(2) have lt: "i < n" by linarith
  have step: "poll_loop w url maxAttempts interval i =
     (fst (poll_loop w url maxAttempts interval (i + 1)),
      EvPoll i # EvSleep interval # snd (poll_loop w url maxAttempts interval (i + 1)))"
    using lt Suc.prems by (intro poll_loop_step) auto
  have IH: "poll_loop w url maxAttempts interval (i + 1) =
           (fst (poll_loop w url maxAttempts interval n),
            concat (map (\<lambda>j. [EvPoll j, EvSleep interval]) [i + 1..n - 1]) @
            snd (poll_loop w url maxAttempts interval n))"
    using Suc.hyps(2) Suc.prems lt by (intro Suc.hyps(1)) auto
  have up: "[i..n - 1] = i # [i + 1..n - 1]"
    using lt by (simp add: upto_rec1)
  show ?case
    by (subst step, subst (1 2) IH) (simp add: up)
qed

lemma poll_loop_end:
  "poll_loop w url maxAttempts interval maxAttempts = (Inl (timeout_error maxAttempts interval), [])"
  by (subst poll_loop.simps) simp

lemma poll_loop_return:
  "i < maxAttempts \<Longrightarrow> fst (poll_attempt w url i) = Return (Inr u) \<Longrightarrow>
   poll_loop w url maxAttempts interval i = (Inr u, [EvPoll i])"
  by (subst poll_loop.simps) (simp add: poll_attempt_Return)

lemma poll_count:
  "length (filter is_poll (snd (poll_loop w url maxAttempts interval i))) \<le> nat (maxAttempts - i)"
proof (induction w url maxAttempts interval i rule: poll_loop.induct)
  case (1 w url maxAttempts interval i)
  show ?case
  proof (cases "i < maxAttempts")
    case False
    then show ?thesis by (subst poll_loop.simps) simp
  next
    case True
    obtain st evs where pa: "poll_attempt w url i = (st, evs)"
      by (cases "poll_attempt w url i") auto
    have evs: "length (filter is_poll evs) \<le> 1"
      using poll_attempt_events [of w url i] pa by (auto split: if_splits)
    show ?thesis
    proof (cases st)
      case (Return r)
      then show ?thesis
        using True pa evs by (subst poll_loop.simps) simp
    next
      case Continue
      have "length (filter is_poll (snd (poll_loop w url maxAttempts interval (i + 1))))
              \<le> nat (maxAttempts - (i + 1))"
        using "1.IH" [OF True pa [symmetric] Continue] .
      then show ?thesis
        using True pa evs Continue
        by (subst poll_loop.simps) (auto split: prod.splits)
    qed
  qed
qed

lemma filter_poll_rounds:
  "filter is_poll (concat (map (\<lambda>j. [EvPoll j, EvSleep d]) js)) = map EvPoll js"
  by (induction js) simp_all

lemma filter_sleep_rounds:
  "filter is_sleep (concat (map (\<lambda>j. [EvPoll j, EvSleep d]) js)) = replicate (length js) (EvSleep d)"
  by (induction js) simp_all

lemma poll_success_at_ceiling:
  assumes "\<forall>j. 0 \<le> j \<and> j < 119 \<longrightarrow> fst (poll_attempt w (recordInfo_url taskID) j) = Continue"
    and "fst (poll_attempt w (recordInfo_url taskID) 119) = Return (Inr u)"
  shows "pollNanoBananaTask w taskID apiKey 120 5 =
           (Inr u, concat (map (\<lambda>j. [EvPoll j, EvSleep 5]) [0..118]) @ [EvPoll 119])"
  unfolding pollNanoBananaTask_def
  by (subst poll_loop_pending [where n = 119])
     (use assms in \<open>simp_all add: poll_loop_return\<close>)

lemma poll_timeout:
  assumes "\<forall>j. 0 \<le> j \<and> j < 120 \<longrightarrow> fst (poll_attempt w (recordInfo_url taskID) j) = Continue"
  shows "pollNanoBananaTask w taskID apiKey 120 5 =
           (Inl (timeout_error 120 5), concat (map (\<lambda>j. [EvPoll j, EvSleep 5]) [0..119]))"
  unfolding pollNanoBananaTask_def
  by (subst poll_loop_pending [where n = 120])
     (use assms in \<open>simp_all add: poll_loop_end\<close>)

lemma timeout_error_text:
  "timeout_error 120 5 = ''task timeout after 120 attempts (approximately 10.0 minutes)''"
  by code_simp

lemma createNanoBananaTask_events: "snd (createNanoBananaTask w url k p) = [EvCreateTask url]"
  by (simp add: createNanoBananaTask_def Let_def)

lemma download_events:
  "filter is_poll (snd (downloadAndSaveImage w u uid d)) = []"
  "filter is_sleep (snd (downloadAndSaveImage w u uid d)) = []"
  by (auto simp: downloadAndSaveImage_def Let_def split: http_reply.splits option.splits)

lemma poll_count_task:
  "length (filter is_poll (snd (pollNanoBananaTask w t k m iv))) \<le> nat m"
  using poll_count [of w "recordInfo_url t" m iv 0] by (simp add: pollNanoBananaTask_def)

lemma nano_after_task:
  assumes "DecodeString w imageData = Inr decodedData"
    and "length decodedData \<le> 10 * 1024 * 1024"
    and "redis_set_error w = None"
    and "fst (createNanoBananaTask w
           (base_url w @ ''/api/image/'' @ imageUUID w @ ''.'' @ imageFormat) apiKey customPrompt) =
         Inr taskID"
  shows "generateCoverWithNanoBanana w R imageData imageFormat apiKey userID dir customPrompt =
     (let key = ''image:'' @ imageUUID w @ ''.'' @ imageFormat;
          R1 = redis_Del (R(key \<mapsto> (decodedData, t_set w + 30 * 60))) key (redis_del_ok w);
          pre = [EvRedisSet key (30 * 60),
                 EvCreateTask (base_url w @ ''/api/image/'' @ imageUUID w @ ''.'' @ imageFormat)];
          polled = pollNanoBananaTask w taskID apiKey 120 5
      in case fst polled of
           Inl e \<Rightarrow> (Inl (''failed to get Nano Banana result: '' @ e), R1,
                     pre @ snd polled @ [EvRedisDel key])
         | Inr resultURL \<Rightarrow>
             (case fst (downloadAndSaveImage w resultURL userID dir) of
                Inl e \<Rightarrow> Inr resultURL
              | Inr savedPath \<Rightarrow> Inr (base_url w @ ''/storage/'' @ savedPath),
              R1,
              pre @ snd polled @ [EvRedisDel key] @
              snd (downloadAndSaveImage w resultURL userID dir)))"
proof -
  obtain task ev1 where ct: "createNanoBananaTask w
           (base_url w @ ''/api/image/'' @ imageUUID w @ ''.'' @ imageFormat) apiKey customPrompt =
         (task, ev1)"
    by (cases "createNanoBananaTask w
           (base_url w @ ''/api/image/'' @ imageUUID w @ ''.'' @ imageFormat) apiKey customPrompt")
  have task: "task = Inr taskID" using assms(4) ct by simp
  have ev1: "ev1 = [EvCreateTask (base_url w @ ''/api/image/'' @ imageUUID w @ ''.'' @ imageFormat)]"
    using createNanoBananaTask_events [of w
        "base_url w @ ''/api/image/'' @ imageUUID w @ ''.'' @ imageFormat" apiKey customPrompt] ct
    by simp
  show ?thesis
    using assms(1,2,3) ct task ev1
    by (simp add: generateCoverWithNanoBanana_def redis_Set_def Let_def
        split: prod.splits sum.splits)
qed


lemma poll_bound:
  "length (filter is_poll (snd (snd (generateCoverWithNanoBanana w R imageData imageFormat apiKey
                                       userID dir customPrompt)))) \<le> 120"
  by (auto simp: generateCoverWithNanoBanana_def Let_def redis_Set_def createNanoBananaTask_events
        download_events prod_eq_iff
      split: sum.splits prod.splits option.splits
      intro: order_trans [OF poll_count_task])

lemma upto_119: "[0..119] = [0..118] @ [119::int]"
  using upto_rec2 [of 0 119] by (simp del: upto_rec_numeral)

lemmas world_defs = provider_world_def base_url_def createNanoBananaTask_def Let_def
  poll_attempt_def recordInfo_url_def waiting_task_def done_task_def

text \<open>
  C7. \<^verbatim>\<open>generateCoverWithNanoBanana\<close> polls with a ceiling of 120 attempts and an
  interval of 5 seconds. Whatever the collaborators answer, a run polls at most 120
  times. Once the image is staged and the task created: if the first 119 attempts end
  in the sleep (the task is not finished, or the exchange failed) and the 120th one
  reports success, the run succeeds with the result of that attempt, after 120 polls
  and 119 sleeps of 5 seconds; if all 120 attempts end in the sleep, the run fails with
  the timeout error, after 120 polls and 120 sleeps of 5 seconds, and polls no more.
\<close>

theorem poll_ceiling:
  "length (filter is_poll (snd (snd (generateCoverWithNanoBanana w R imageData imageFormat apiKey
                                       userID dir customPrompt)))) \<le> 120 \<and>
   (DecodeString w imageData = Inr decodedData \<and> length decodedData \<le> 10 * 1024 * 1024 \<and>
    redis_set_error w = None \<and>
    fst (createNanoBananaTask w
           (base_url w @ ''/api/image/'' @ imageUUID w @ ''.'' @ imageFormat) apiKey customPrompt) =
      Inr taskID \<and>
    (\<forall>j. 0 \<le> j \<and> j < 119 \<longrightarrow> fst (poll_attempt w (recordInfo_url taskID) j) = Continue) \<and>
    fst (poll_attempt w (recordInfo_url taskID) 119) = Return (Inr resultURL) \<longrightarrow>
      fst (generateCoverWithNanoBanana w R imageData imageFormat apiKey userID dir customPrompt) =
        (case fst (downloadAndSaveImage w resultURL userID dir) of
           Inl e \<Rightarrow> Inr resultURL
         | Inr savedPath \<Rightarrow> Inr (base_url w @ ''/storage/'' @ savedPath)) \<and>
      filter is_poll (snd (snd (generateCoverWithNanoBanana w R imageData imageFormat apiKey
                                  userID dir customPrompt))) = map EvPoll [0..119] \<and>
      filter is_sleep (snd (snd (generateCoverWithNanoBanana w R imageData imageFormat apiKey
                                   userID dir customPrompt))) = replicate 119 (EvSleep 5)) \<and>
   (DecodeString w imageData = Inr decodedData \<and> length decodedData \<le> 10 * 1024 * 1024 \<and>
    redis_set_error w = None \<and>
    fst (createNanoBananaTask w
           (base_url w @ ''/api/image/'' @ imageUUID w @ ''.'' @ imageFormat) apiKey customPrompt) =
      Inr taskID \<and>
    (\<forall>j. 0 \<le> j \<and> j < 120 \<longrightarrow> fst (poll_attempt w (recordInfo_url taskID) j) = Continue) \<longrightarrow>
      fst (generateCoverWithNanoBanana w R imageData imageFormat apiKey userID dir customPrompt) =
        Inl (''failed to get Nano Banana result: '' @ timeout_error 120 5) \<and>
      filter is_poll (snd (snd (generateCoverWithNanoBanana w R imageData imageFormat apiKey
                                  userID dir customPrompt))) = map EvPoll [0..119] \<and>
      filter is_sleep (snd (snd (generateCoverWithNanoBanana w R imageData imageFormat apiKey
                                   userID dir customPrompt))) = replicate 120 (EvSleep 5))"
proof (intro conjI impI)
  show "length (filter is_poll (snd (snd (generateCoverWithNanoBanana w R imageData imageFormat
          apiKey userID dir customPrompt)))) \<le> 120"
    by (rule poll_bound)
next
  assume a: "DecodeString w imageData = Inr decodedData \<and> length decodedData \<le> 10 * 1024 * 1024 \<and>
    redis_set_error w = None \<and>
    fst (createNanoBananaTask w
           (base_url w @ ''/api/image/'' @ imageUUID w @ ''.'' @ imageFormat) apiKey customPrompt) =
      Inr taskID \<and>
    (\<forall>j. 0 \<le> j \<and> j < 119 \<longrightarrow> fst (poll_attempt w (recordInfo_url taskID) j) = Continue) \<and>
    fst (poll_attempt w (recordInfo_url taskID) 119) = Return (Inr resultURL)"
  then have run: "generateCoverWithNanoBanana w R imageData imageFormat apiKey userID dir customPrompt =
     (let key = ''image:'' @ imageUUID w @ ''.'' @ imageFormat;
          R1 = redis_Del (R(key \<mapsto> (decodedData, t_set w + 30 * 60))) key (redis_del_ok w);
          pre = [EvRedisSet key (30 * 60),
                 EvCreateTask (base_url w @ ''/api/image/'' @ imageUUID w @ ''.'' @ imageFormat)];
          polled = pollNanoBananaTask w taskID apiKey 120 5
      in case fst polled of
           Inl e \<Rightarrow> (Inl (''failed to get Nano Banana result: '' @ e), R1,
                     pre @ snd polled @ [EvRedisDel key])
         | Inr resultURL \<Rightarrow>
             (case fst (downloadAndSaveImage w resultURL userID dir) of
                Inl e \<Rightarrow> Inr resultURL
              | Inr savedPath \<Rightarrow> Inr (base_url w @ ''/storage/'' @ savedPath),
              R1,
              pre @ snd polled @ [EvRedisDel key] @
              snd (downloadAndSaveImage w resultURL userID dir)))"
    by (intro nano_after_task) simp_all
  have polled: "pollNanoBananaTask w taskID apiKey 120 5 =
           (Inr resultURL, concat (map (\<lambda>j. [EvPoll j, EvSleep 5]) [0..118]) @ [EvPoll 119])"
    using a by (intro poll_success_at_ceiling) simp_all
  show "fst (generateCoverWithNanoBanana w R imageData imageFormat apiKey userID dir customPrompt) =
        (case fst (downloadAndSaveImage w resultURL userID dir) of
           Inl e \<Rightarrow> Inr resultURL
         | Inr savedPath \<Rightarrow> Inr (base_url w @ ''/storage/'' @ savedPath))"
    by (simp add: run polled Let_def)
  show "filter is_poll (snd (snd (generateCoverWithNanoBanana w R imageData imageFormat apiKey
                                  userID dir customPrompt))) = map EvPoll [0..119]"
    by (simp add: run polled Let_def filter_poll_rounds download_events upto_119
        del: upto_rec_numeral)
  show "filter is_sleep (snd (snd (generateCoverWithNanoBanana w R imageData imageFormat apiKey
                                   userID dir customPrompt))) = replicate 119 (EvSleep 5)"
    by (simp add: run polled Let_def filter_sleep_rounds download_events
        del: upto_rec_numeral)
next
  assume a: "DecodeString w imageData = Inr decodedData \<and> length decodedData \<le> 10 * 1024 * 1024 \<and>
    redis_set_error w = None \<and>
    fst (createNanoBananaTask w
           (base_url w @ ''/api/image/'' @ imageUUID w @ ''.'' @ imageFormat) apiKey customPrompt) =
      Inr taskID \<and>
    (\<forall>j. 0 \<le> j \<and> j < 120 \<longrightarrow> fst (poll_attempt w (recordInfo_url taskID) j) = Continue)"
  then have run: "generateCoverWithNanoBanana w R imageData imageFormat apiKey userID dir customPrompt =
     (let key = ''image:'' @ imageUUID w @ ''.'' @ imageFormat;
          R1 = redis_Del (R(key \<mapsto> (decodedData, t_set w + 30 * 60))) key (redis_del_ok w);
          pre = [EvRedisSet key (30 * 60),
                 EvCreateTask (base_url w @ ''/api/image/'' @ imageUUID w @ ''.'' @ imageFormat)];
          polled = pollNanoBananaTask w taskID apiKey 120 5
      in case fst polled of
           Inl e \<Rightarrow> (Inl (''failed to get Nano Banana result: '' @ e), R1,
                     pre @ snd polled @ [EvRedisDel key])
         | Inr resultURL \<Rightarrow>
             (case fst (downloadAndSaveImage w resultURL userID dir) of
                Inl e \<Rightarrow> Inr resultURL
              | Inr savedPath \<Rightarrow> Inr (base_url w @ ''/storage/'' @ savedPath),
              R1,
              pre @ snd polled @ [EvRedisDel key] @
              snd (downloadAndSaveImage w resultURL userID dir)))"
    by (intro nano_after_task) simp_all
  have polled: "pollNanoBananaTask w taskID apiKey 120 5 =
           (Inl (timeout_error 120 5), concat (map (\<lambda>j. [EvPoll j, EvSleep 5]) [0..119]))"
    using a by (intro poll_timeout) simp_all
  show "fst (generateCoverWithNanoBanana w R imageData imageFormat apiKey userID dir customPrompt) =
        Inl (''failed to get Nano Banana result: '' @ timeout_error 120 5)"
    by (simp add: run polled Let_def)
  show "filter is_poll (snd (snd (generateCoverWithNanoBanana w R imageData imageFormat apiKey
                                  userID dir customPrompt))) = map EvPoll [0..119]"
    by (simp add: run polled Let_def filter_poll_rounds del: upto_rec_numeral)
  show "filter is_sleep (snd (snd (generateCoverWithNanoBanana w R imageData imageFormat apiKey
                                   userID dir customPrompt))) = replicate 120 (EvSleep 5)"
    by (simp add: run polled Let_def filter_sleep_rounds del: upto_rec_numeral)
qed

theorem poll_ceiling_witness:
  "fst (generateCoverWithNanoBanana (provider_world 119) empty_redis ''AAAA'' ''png'' ''key1''
          ''u1'' ''storage'' []) = Inr ''https://cover.example/storage/u1/file_90700.png'' \<and>
   fst (generateCoverWithNanoBanana (provider_world 120) empty_redis ''AAAA'' ''png'' ''key1''
          ''u1'' ''storage'' []) =
     Inl ''failed to get Nano Banana result: task timeout after 120 attempts (approximately 10.0 minutes)''"
proof -
  have small: "length ''AAAA'' \<le> 10 * 1024 * 1024"
    by simp
  have staged: "DecodeString (provider_world n) ''AAAA'' = Inr ''AAAA''"
    "redis_set_error (provider_world n) = None"
    "fst (createNanoBananaTask (provider_world n)
           (base_url (provider_world n) @ ''/api/image/'' @ imageUUID (provider_world n) @ ''.'' @
            ''png'') ''key1'' []) = Inr ''task1''" for n
    by (simp_all add: world_defs)
  have wait119: "\<forall>j. 0 \<le> j \<and> j < 119 \<longrightarrow>
          fst (poll_attempt (provider_world 119) (recordInfo_url ''task1'') j) = Continue"
    by (simp add: world_defs)
  have done119: "fst (poll_attempt (provider_world 119) (recordInfo_url ''task1'') 119) =
          Return (Inr ''https://provider.example/result.png'')"
    by (simp add: world_defs)
  have wait120: "\<forall>j. 0 \<le> j \<and> j < 120 \<longrightarrow>
          fst (poll_attempt (provider_world 120) (recordInfo_url ''task1'') j) = Continue"
    by (simp add: world_defs)
  have stored: "fst (downloadAndSaveImage (provider_world 119)
                       ''https://provider.example/result.png'' ''u1'' ''storage'') =
                Inr ''u1/file_90700.png''"
    by (simp add: downloadAndSaveImage_def provider_world_def Join_def Let_def Itoa_def
        Itoa_nat.simps digit_char_def)
  note msg = timeout_error_text
  from poll_ceiling [where w = "provider_world 119" and R = empty_redis and imageData = "''AAAA''"
      and imageFormat = "''png''" and apiKey = "''key1''" and userID = "''u1''"
      and dir = "''storage''" and customPrompt = "[]" and decodedData = "''AAAA''"
      and taskID = "''task1''" and resultURL = "''https://provider.example/result.png''"]
    small staged [of 119] wait119 done119
  have a: "fst (generateCoverWithNanoBanana (provider_world 119) empty_redis ''AAAA'' ''png'' ''key1''
          ''u1'' ''storage'' []) =
        (case fst (downloadAndSaveImage (provider_world 119)
                       ''https://provider.example/result.png'' ''u1'' ''storage'') of
           Inl e \<Rightarrow> Inr ''https://provider.example/result.png''
         | Inr savedPath \<Rightarrow> Inr (base_url (provider_world 119) @ ''/storage/'' @ savedPath))"
    by blast
  from poll_ceiling [where w = "provider_world 120" and R = empty_redis and imageData = "''AAAA''"
      and imageFormat = "''png''" and apiKey = "''key1''" and userID = "''u1''"
      and dir = "''storage''" and customPrompt = "[]" and decodedData = "''AAAA''"
      and taskID = "''task1''"]
    small staged [of 120] wait120
  have b: "fst (generateCoverWithNanoBanana (provider_world 120) empty_redis ''AAAA'' ''png'' ''key1''
          ''u1'' ''storage'' []) = Inl (''failed to get Nano Banana result: '' @ timeout_error 120 5)"
    by blast
  have bu: "base_url (provider_world 119) = ''https://cover.example''"
    by (simp add: base_url_def provider_world_def)
  show ?thesis
    using a b by (simp add: stored msg bu)
qed

section \<open>Staging cache: reclamation\<close>

text \<open>
  C8. Once the image is stored in Redis (decoded, within the size limit, \<^verbatim>\<open>Set\<close>
  accepted), the trace of the run starts with that \<^verbatim>\<open>Set\<close>, under the key of the
  fresh image id and with a time to live of 30 minutes, and a \<^verbatim>\<open>Del\<close> of the same
  key follows in the same run, whichever way the run ends. When the \<^verbatim>\<open>Del\<close>
  reaches Redis the key is gone; when it does not, the key still expires 30 minutes
  after it was set. Either way, from that instant on the image endpoint answers 404
  for the image id.
\<close>

theorem staged_artifact_reclaimed:
  assumes "DecodeString w imageData = Inr decodedData"
    and "length decodedData \<le> 10 * 1024 * 1024"
    and "redis_set_error w = None"
    and "t_set w + 30 * 60 \<le> now"
  shows "snd (snd (generateCoverWithNanoBanana w R imageData imageFormat apiKey userID dir
                     customPrompt)) =
           EvRedisSet (''image:'' @ imageUUID w @ ''.'' @ imageFormat) (30 * 60) #
           tl (snd (snd (generateCoverWithNanoBanana w R imageData imageFormat apiKey userID dir
                           customPrompt))) \<and>
         EvRedisDel (''image:'' @ imageUUID w @ ''.'' @ imageFormat) \<in>
           set (tl (snd (snd (generateCoverWithNanoBanana w R imageData imageFormat apiKey userID
                                dir customPrompt)))) \<and>
         (if redis_del_ok w
          then fst (snd (generateCoverWithNanoBanana w R imageData imageFormat apiKey userID dir
                           customPrompt)) (''image:'' @ imageUUID w @ ''.'' @ imageFormat) = None
          else fst (snd (generateCoverWithNanoBanana w R imageData imageFormat apiKey userID dir
                           customPrompt)) (''image:'' @ imageUUID w @ ''.'' @ imageFormat) =
                 Some (decodedData, t_set w + 30 * 60)) \<and>
         image_endpoint
           (fst (snd (generateCoverWithNanoBanana w R imageData imageFormat apiKey userID dir
                        customPrompt)))
           (imageUUID w @ ''.'' @ imageFormat) now = (404, [], [])"
  using assms
  by (auto simp: generateCoverWithNanoBanana_def Let_def redis_Set_def redis_Del_def redis_Get_def
        image_endpoint_def createNanoBananaTask_events prod_eq_iff
      split: sum.splits prod.splits)

theorem staged_artifact_reclaimed_witness:
  "fst (snd (generateCoverWithNanoBanana lost_redis_world empty_redis ''AAAA'' ''png'' ''key1''
               ''u1'' ''storage'' [])) ''image:img.png'' = Some (''AAAA'', 91801) \<and>
   image_endpoint
     (fst (snd (generateCoverWithNanoBanana lost_redis_world empty_redis ''AAAA'' ''png'' ''key1''
                  ''u1'' ''storage'' [])))
     ''img.png'' 91801 = (404, [], [])"
proof -
  have d: "DecodeString lost_redis_world ''AAAA'' = Inr ''AAAA''"
    and s: "redis_set_error lost_redis_world = None"
    and t: "t_set lost_redis_world + 30 * 60 \<le> 91801"
    by (simp_all add: lost_redis_world_def provider_world_def)
  have small: "length ''AAAA'' \<le> 10 * 1024 * 1024"
    by simp
  have k: "imageUUID lost_redis_world = ''img''" "\<not> redis_del_ok lost_redis_world"
    "t_set lost_redis_world = 90001"
    by (simp_all add: lost_redis_world_def provider_world_def)
  from staged_artifact_reclaimed [OF d small s t, of empty_redis "''png''" "''key1''" "''u1''"
      "''storage''" "[]"]
  show ?thesis
    by (simp add: k)
qed

section \<open>Persistence: the fallback to the provider's URL\<close>




end
